theory Spec2Isabelle
  imports Main
begin

section \<open>The schema model\<close>

text \<open>
  Modelled from the spec: \<^verbatim>\<open>notanorm/model.py\<close> (the declarations of \<^verbatim>\<open>DbType\<close>,
  \<^verbatim>\<open>DbColCustomInfo\<close>, \<^verbatim>\<open>DbCol\<close>, \<^verbatim>\<open>DbIndexField\<close>, \<^verbatim>\<open>DbIndex\<close>, \<^verbatim>\<open>DbTable\<close> and
  \<^verbatim>\<open>DbModel\<close>) is imported by \<^verbatim>\<open>postgres.py\<close> and is not among the sources. The types
  below follow section 3 of the specification and the fields \<^verbatim>\<open>postgres.py\<close> reads and
  writes. Field names carry a prefix where the source's name is a constant of HOL
  (\<^verbatim>\<open>size\<close>, \<^verbatim>\<open>default\<close>, \<^verbatim>\<open>name\<close>).

  The values are Python named tuples, so a field can hold \<^verbatim>\<open>None\<close>: \<^verbatim>\<open>size\<close>,
  \<^verbatim>\<open>default\<close> and \<^verbatim>\<open>custom\<close> are optional, and \<^verbatim>\<open>autoinc\<close> is optional too because
  \<^verbatim>\<open>column_model\<close> stores in it the catalog's flag
  \<^verbatim>\<open>column_default LIKE 'nextval%'\<close>, which is NULL for a column without a default.
\<close>

datatype DbType = TEXT | BLOB | INTEGER | BOOLEAN | FLOAT | DOUBLE | ANY

record DbColCustomInfo =
  dialect :: string
  info :: string

record DbCol =
  col_name :: string
  col_typ :: DbType
  col_size :: "int option"
  col_fixed :: bool
  col_notnull :: bool
  col_default :: "string option"
  col_autoinc :: "bool option"
  col_custom :: "DbColCustomInfo option"

record DbIndexField =
  fld_name :: string
  prefix_len :: "int option"

record DbIndex =
  idx_fields :: "DbIndexField list"
  idx_unique :: bool
  idx_primary :: bool
  idx_name :: "string option"

text \<open>
  \<^verbatim>\<open>DbTable.indexes\<close> is a Python set; the code only iterates over it, so it is the list
  of its elements in iteration order. \<^verbatim>\<open>DbModel\<close> is a dict from table name to table,
  iterated in insertion order: an association list.
\<close>

record DbTable =
  columns :: "DbCol list"
  indexes :: "DbIndex list"

type_synonym DbModel = "(string \<times> DbTable) list"

subsection \<open>Python truth values\<close>

text \<open>\<^verbatim>\<open>if x:\<close> on an optional integer or flag: \<^verbatim>\<open>None\<close>, \<^verbatim>\<open>0\<close> and
  \<^verbatim>\<open>False\<close> are false.\<close>

definition truthy_int :: "int option \<Rightarrow> bool" where
  "truthy_int x = (case x of None \<Rightarrow> False | Some n \<Rightarrow> n \<noteq> 0)"

definition truthy_flag :: "bool option \<Rightarrow> bool" where
  "truthy_flag x = (case x of None \<Rightarrow> False | Some b \<Rightarrow> b)"

section \<open>The type mapping table\<close>

text \<open>\<^verbatim>\<open>PostgresDb._type_map\<close>, its items in the order of the dict literal,
  \<^verbatim>\<open>_type_map_inverse = {v: k for k, v in _type_map.items()}\<close> (a later item overwrites
  an earlier one with the same native name) and \<^verbatim>\<open>_type_map_custom\<close>.\<close>

definition type_map_items :: "(DbType \<times> string) list" where
  "type_map_items =
     [(TEXT, ''text''), (BLOB, ''bytea''), (INTEGER, ''bigint''), (BOOLEAN, ''boolean''),
      (FLOAT, ''real''), (DOUBLE, ''double precision''), (ANY, '''')]"

fun type_map :: "DbType \<Rightarrow> string" where
  "type_map TEXT = ''text''"
| "type_map BLOB = ''bytea''"
| "type_map INTEGER = ''bigint''"
| "type_map BOOLEAN = ''boolean''"
| "type_map FLOAT = ''real''"
| "type_map DOUBLE = ''double precision''"
| "type_map ANY = ''''"

definition type_map_inverse :: "string \<rightharpoonup> DbType" where
  "type_map_inverse = map_of (rev (map (\<lambda>(k, v). (v, k)) type_map_items))"

definition type_map_custom :: "string \<rightharpoonup> DbColCustomInfo" where
  "type_map_custom =
     [''text'' \<mapsto> \<lparr>dialect = ''postgres'', info = ''text''\<rparr>,
      ''bytea'' \<mapsto> \<lparr>dialect = ''postgres'', info = ''bytea''\<rparr>]"

section \<open>Exceptions and the names of the module\<close>

text \<open>
  The exceptions the modelled code can raise. \<^verbatim>\<open>TypeError\<close> comes from \<^verbatim>\<open>psycopg2.sql\<close>
  and from \<^verbatim>\<open>str.join\<close>: \<^verbatim>\<open>Identifier(x)\<close> accepts strings only, and a composable plus a
  plain \<^verbatim>\<open>str\<close> is not defined (\<^verbatim>\<open>__add__\<close> returns \<^verbatim>\<open>NotImplemented\<close>).
  \<^verbatim>\<open>NameError\<close> is raised when a function reads a global name the module never binds.
\<close>

datatype error =
    SchemaError string
  | AssertionError string
  | TypeError string
  | StopIteration
  | NameError string

text \<open>
  The global names of \<^verbatim>\<open>postgres.py\<close>: what its \<^verbatim>\<open>import\<close> statements (lines 1 to 14) and
  its \<^verbatim>\<open>class\<close> statement bind. \<^verbatim>\<open>import psycopg2.extras\<close> binds \<^verbatim>\<open>psycopg2\<close>. The
  module has no \<^verbatim>\<open>import re\<close>, and \<^verbatim>\<open>re\<close> is not a builtin.
\<close>

definition module_globals :: "string list" where
  "module_globals =
     [''psycopg2'', ''sql'', ''DbBase'', ''parse_bool'', ''DbType'', ''DbModel'', ''DbTable'',
      ''DbCol'', ''DbIndex'', ''DbIndexField'', ''DbColCustomInfo'', ''err'', ''PostgresDb'']"

text \<open>Reading a global name inside a function body.\<close>

definition global_name :: "string \<Rightarrow> error + unit" where
  "global_name n = (if n \<in> set module_globals then Inr () else Inl (NameError n))"

section \<open>The catalog introspector: \<^verbatim>\<open>column_model\<close>\<close>

text \<open>
  \<^verbatim>\<open>re.match(r"(character varying|character|text)\((\d+)\)", col_type)\<close> matches at the
  start of the string. The alternatives are tried in order, and after one of them the rest
  must be an opening parenthesis, a non-empty run of digits (greedy, so the whole run) and
  a closing parenthesis. A \<^typ>\<open>char\<close> is one of 256 code points, among which
  \<^verbatim>\<open>\d\<close> matches \<^verbatim>\<open>0\<close> to \<^verbatim>\<open>9\<close> only. These are the matches the two calls
  would compute with the standard library's \<^verbatim>\<open>re\<close> bound in the module.
\<close>

definition is_digit :: "char \<Rightarrow> bool" where
  "is_digit c = (c \<in> set ''0123456789'')"

definition match_paren_digits :: "string \<Rightarrow> string option" where
  "match_paren_digits s =
     (case s of
        [] \<Rightarrow> None
      | c # r \<Rightarrow>
          if c \<noteq> CHR ''('' then None
          else let ds = takeWhile is_digit r in
            if ds = [] then None
            else (case dropWhile is_digit r of
                    [] \<Rightarrow> None
                  | d # _ \<Rightarrow> if d = CHR '')'' then Some ds else None))"

fun re_match_alt :: "string list \<Rightarrow> string \<Rightarrow> (string \<times> string) option" where
  "re_match_alt [] s = None"
| "re_match_alt (p # ps) s =
     (if take (length p) s = p
      then (case match_paren_digits (drop (length p) s) of
              Some ds \<Rightarrow> Some (p, ds)
            | None \<Rightarrow> re_match_alt ps s)
      else re_match_alt ps s)"

definition match_t :: "string \<Rightarrow> (string \<times> string) option" where
  "match_t col_type = re_match_alt [''character varying'', ''character'', ''text''] col_type"

definition match_b :: "string \<Rightarrow> (string \<times> string) option" where
  "match_b col_type = re_match_alt [''bytea''] col_type"

text \<open>\<^verbatim>\<open>int(match_t[2])\<close> on a non-empty string of digits.\<close>

definition int_of_digits :: "string \<Rightarrow> int" where
  "int_of_digits ds = foldl (\<lambda>n c. 10 * n + (of_char c - 48)) 0 ds"

text \<open>
  \<^verbatim>\<open>column_model\<close>. After the two assignments \<^verbatim>\<open>size = None\<close> and \<^verbatim>\<open>fixed = False\<close>,
  its first statement (line 282) evaluates \<^verbatim>\<open>re.match\<close>, which reads the global name
  \<^verbatim>\<open>re\<close>: where the module does not bind it, the call raises \<^verbatim>\<open>NameError\<close> there and
  the rest of the body is not reached.
\<close>

definition column_model ::
  "string \<Rightarrow> string \<Rightarrow> string \<Rightarrow> string option \<Rightarrow> bool option \<Rightarrow> bool \<Rightarrow> error + DbCol" where
  "column_model name col_type is_nullable col_default' is_auto_increment in_primary =
     (case global_name ''re'' of
        Inl e \<Rightarrow> Inl e
      | Inr _ \<Rightarrow>
          Inr (let (typ, size) =
                     (case match_t col_type of
                        Some (_, ds) \<Rightarrow> (TEXT, Some (int_of_digits ds))
                      | None \<Rightarrow>
                          (case match_b col_type of
                             Some _ \<Rightarrow> (BLOB, None)
                           | None \<Rightarrow>
                               (case type_map_inverse col_type of
                                  Some t \<Rightarrow> (t, None)
                                | None \<Rightarrow> (ANY, None))));
                   fixed = (col_type = ''character'');
                   custom = type_map_custom col_type;
                   autoinc_primary = (in_primary \<and> truthy_flag is_auto_increment)
               in \<lparr>col_name = name, col_typ = typ, col_size = size, col_fixed = fixed,
                   col_notnull = (is_nullable = ''NO'' \<and> \<not> autoinc_primary),
                   col_default = col_default', col_autoinc = is_auto_increment,
                   col_custom = custom\<rparr>))"

section \<open>The model normalizer: \<^verbatim>\<open>simplify_model\<close>\<close>

text \<open>
  The inner loop \<^verbatim>\<open>for index in tab.indexes: if index.primary: primary_fields = ...\<close>
  starts from the value \<^verbatim>\<open>primary_fields\<close> has when the loop is entered and keeps the
  fields of the last primary index it meets.
\<close>

definition scan_primary :: "string list \<Rightarrow> DbIndex list \<Rightarrow> string list" where
  "scan_primary primary_fields idxs =
     foldl (\<lambda>pf index. if idx_primary index then map fld_name (idx_fields index) else pf)
       primary_fields idxs"

text \<open>
  The body of \<^verbatim>\<open>for col in tab.columns\<close>. \<^verbatim>\<open>d = col._asdict()\<close> holds every field of the
  column, \<^verbatim>\<open>custom\<close> included, so the third \<^verbatim>\<open>if\<close> stores in \<^verbatim>\<open>d["custom"]\<close> the value
  that is already there.
\<close>

definition simplify_col :: "string list \<Rightarrow> DbCol \<Rightarrow> DbCol" where
  "simplify_col primary_fields col =
     (let d = col;
          d = (if col_typ col = INTEGER \<and> \<not> truthy_int (col_size col)
               then d\<lparr>col_size := Some 8\<rparr> else d);
          d = (if col_name col \<in> set primary_fields then d\<lparr>col_notnull := True\<rparr> else d);
          d = (case col_custom col of
                 None \<Rightarrow> d
               | Some cu \<Rightarrow>
                   if dialect cu = ''postgres'' then d\<lparr>col_custom := col_custom col\<rparr> else d)
      in d)"

text \<open>\<^verbatim>\<open>model2[nam] = ...\<close> on a dict kept as an association list: an existing key keeps
  its place, a new key goes to the end.\<close>

fun dict_set :: "('k \<times> 'v) list \<Rightarrow> 'k \<Rightarrow> 'v \<Rightarrow> ('k \<times> 'v) list" where
  "dict_set [] k v = [(k, v)]"
| "dict_set ((k', v') # kvs) k v =
     (if k' = k then (k, v) # kvs else (k', v') # dict_set kvs k v)"

text \<open>The loop \<^verbatim>\<open>for nam, tab in model.items()\<close>. Its state is \<^verbatim>\<open>primary_fields\<close>, which
  the source initialises once, before the loop, and \<^verbatim>\<open>model2\<close>.\<close>

fun simplify_tables :: "string list \<Rightarrow> DbModel \<Rightarrow> DbModel \<Rightarrow> DbModel" where
  "simplify_tables primary_fields model2 [] = model2"
| "simplify_tables primary_fields model2 ((nam, tab) # rest) =
     (let primary_fields' = scan_primary primary_fields (indexes tab);
          cols = map (simplify_col primary_fields') (columns tab)
      in simplify_tables primary_fields'
           (dict_set model2 nam \<lparr>columns = cols, indexes = indexes tab\<rparr>) rest)"

definition simplify_model :: "DbModel \<Rightarrow> DbModel" where
  "simplify_model model = simplify_tables [] [] model"

section \<open>SQL composition (\<^verbatim>\<open>psycopg2.sql\<close>)\<close>

text \<open>
  \<^verbatim>\<open>postgres.py\<close> builds its statements from \<^verbatim>\<open>psycopg2.sql\<close> objects: \<^verbatim>\<open>SQL\<close> is a
  fragment taken as it is, \<^verbatim>\<open>Identifier\<close> is rendered through \<^verbatim>\<open>quote_ident\<close> (enclosed in
  double quotes, an embedded double quote doubled) and \<^verbatim>\<open>Composed\<close> is a sequence rendered
  by concatenation.
\<close>

datatype composable = SQL string | Identifier string | Composed "composable list"

definition dq :: char where
  "dq = CHR 0x22"

definition quote_ident :: "string \<Rightarrow> string" where
  "quote_ident s = [dq] @ concat (map (\<lambda>c. if c = dq then [dq, dq] else [c]) s) @ [dq]"

fun as_string :: "composable \<Rightarrow> string" where
  "as_string (SQL s) = s"
| "as_string (Identifier s) = quote_ident s"
| "as_string (Composed cs) = concat (map as_string cs)"

text \<open>\<^verbatim>\<open>Composable.__add__\<close> and \<^verbatim>\<open>Composed.__add__\<close> on two composables.\<close>

fun add :: "composable \<Rightarrow> composable \<Rightarrow> composable" where
  "add (Composed xs) (Composed ys) = Composed (xs @ ys)"
| "add (Composed xs) y = Composed (xs @ [y])"
| "add x (Composed ys) = Composed ([x] @ ys)"
| "add x y = Composed ([x] @ [y])"

text \<open>\<^verbatim>\<open>SQL.join(seq)\<close>: the joiner between every two elements.\<close>

fun join_seq :: "composable \<Rightarrow> composable list \<Rightarrow> composable list" where
  "join_seq j [] = []"
| "join_seq j [x] = [x]"
| "join_seq j (x # y # ys) = x # j # join_seq j (y # ys)"

definition sql_join :: "composable \<Rightarrow> composable list \<Rightarrow> composable" where
  "sql_join j seq = Composed (join_seq j seq)"

text \<open>A value that is either a plain Python \<^verbatim>\<open>str\<close> or a composable: the variable
  \<^verbatim>\<open>typ\<close> of \<^verbatim>\<open>create_table\<close> holds one or the other.\<close>

datatype pyval = Str string | Comp composable

definition sql_plus :: "composable \<Rightarrow> pyval \<Rightarrow> error + composable" where
  "sql_plus a b =
     (case b of
        Comp c \<Rightarrow> Inr (add a c)
      | Str _ \<Rightarrow> Inl (TypeError ''unsupported operand type(s) for +''))"

text \<open>\<^verbatim>\<open>sql.Identifier(n)\<close> on an integer.\<close>

definition Identifier_int :: "int \<Rightarrow> error + composable" where
  "Identifier_int n = Inl (TypeError ''SQL identifier parts must be strings'')"

text \<open>The text of a \<^verbatim>\<open>typ\<close> value: the native type name it stands for.\<close>

definition native_name :: "pyval \<Rightarrow> string" where
  "native_name v = (case v of Str s \<Rightarrow> s | Comp c \<Rightarrow> as_string c)"

section \<open>The DDL generator: \<^verbatim>\<open>create_table\<close> and \<^verbatim>\<open>_create_index\<close>\<close>

text \<open>
  \<^verbatim>\<open>self._int_map\<close>, the table from integer sizes to native type names, is not defined in
  \<^verbatim>\<open>postgres.py\<close>: it is a parameter \<open>int_map\<close> here.

  The \<^verbatim>\<open>if\<close>/\<^verbatim>\<open>elif\<close> chain that sets \<^verbatim>\<open>typ\<close>. In
  \<^verbatim>\<open>sql.SQL("varchar({})").format(sql.Identifier(col.size))\<close> the argument is evaluated
  first; \<^verbatim>\<open>format\<close> then puts it between the two literal parts.
\<close>

definition resolve_typ :: "(int \<rightharpoonup> string) \<Rightarrow> DbCol \<Rightarrow> error + pyval" where
  "resolve_typ int_map col =
     (if (case col_custom col of
            None \<Rightarrow> False
          | Some cu \<Rightarrow> col_typ col = TEXT \<and> dialect cu = ''postgres'')
      then (case col_custom col of
              None \<Rightarrow> Inl (AssertionError ''unknown custom info'')
            | Some cu \<Rightarrow>
                if info cu = ''text'' then Inr (Str ''text'')
                else if info cu = ''bytea'' then Inr (Str ''bytea'')
                else Inl (AssertionError ''unknown custom info''))
      else if truthy_int (col_size col) \<and> col_typ col = TEXT
      then (case col_size col of
              None \<Rightarrow> Inr (Comp (SQL (type_map (col_typ col))))
            | Some n \<Rightarrow>
                (case Identifier_int n of
                   Inl e \<Rightarrow> Inl e
                 | Inr i \<Rightarrow> Inr (Comp (Composed [SQL ''varchar('', i, SQL '')'']))))
      else if truthy_int (col_size col) \<and> col_typ col = BLOB
      then Inr (Comp (SQL ''bytea''))
      else (case (if truthy_int (col_size col) \<and> col_typ col = INTEGER
                  then (case col_size col of None \<Rightarrow> None | Some n \<Rightarrow> int_map n)
                  else None) of
              Some native \<Rightarrow> Inr (Comp (SQL native))
            | None \<Rightarrow> Inr (Comp (SQL (type_map (col_typ col))))))"

text \<open>One pass of \<^verbatim>\<open>for col in schema.columns\<close>: the column definition appended to
  \<^verbatim>\<open>coldefs\<close>, or the exception raised.\<close>

definition coldef_of :: "(int \<rightharpoonup> string) \<Rightarrow> string list \<Rightarrow> DbCol \<Rightarrow> error + composable" where
  "coldef_of int_map primary_fields col =
     (let coldef = Identifier (col_name col) in
      case resolve_typ int_map col of
        Inl e \<Rightarrow> Inl e
      | Inr typ \<Rightarrow>
          (case sql_plus (SQL '' '') typ of
             Inl e \<Rightarrow> Inl e
           | Inr t \<Rightarrow>
               let coldef = add coldef t;
                   coldef = (if col_notnull col then add coldef (SQL '' NOT NULL'') else coldef);
                   coldef = (case col_default col of
                               None \<Rightarrow> coldef
                             | Some dflt \<Rightarrow>
                                 if dflt \<noteq> []
                                 then add coldef (add (SQL '' DEFAULT '') (Identifier dflt))
                                 else coldef)
               in if truthy_flag (col_autoinc col)
                  then (if [col_name col] \<noteq> primary_fields
                        then Inl (SchemaError
                               (''auto increment only works on primary key: '' @ col_name col))
                        else Inr (add coldef (SQL '' SERIAL'')))
                  else Inr coldef))"

fun coldefs_of ::
  "(int \<rightharpoonup> string) \<Rightarrow> string list \<Rightarrow> DbCol list \<Rightarrow> error + composable list" where
  "coldefs_of int_map primary_fields [] = Inr []"
| "coldefs_of int_map primary_fields (col # cols) =
     (case coldef_of int_map primary_fields col of
        Inl e \<Rightarrow> Inl e
      | Inr coldef \<Rightarrow>
          (case coldefs_of int_map primary_fields cols of
             Inl e \<Rightarrow> Inl e
           | Inr coldefs \<Rightarrow> Inr (coldef # coldefs)))"

text \<open>
  The statement \<^verbatim>\<open>create_table\<close> passes to \<^verbatim>\<open>self.query\<close>, or the exception raised before.
  \<^verbatim>\<open>ignore\<close> is computed as in the source, which does not use it afterwards.
\<close>

definition create_table_sql ::
  "(int \<rightharpoonup> string) \<Rightarrow> string \<Rightarrow> DbTable \<Rightarrow> bool \<Rightarrow> error + composable" where
  "create_table_sql int_map name schema ignore_existing =
     (let primary_fields = scan_primary [] (indexes schema) in
      case coldefs_of int_map primary_fields (columns schema) of
        Inl e \<Rightarrow> Inl e
      | Inr coldefs \<Rightarrow>
          let keys = map Identifier primary_fields;
              coldefs = (if keys \<noteq> []
                         then coldefs @ [Composed [SQL ''PRIMARY KEY ('',
                                                   sql_join (SQL '', '') keys, SQL '')'']]
                         else coldefs);
              ignore = (if ignore_existing then ''IF NOT EXISTS '' else []);
              create = Composed [SQL ''CREATE TABLE '', Identifier name, SQL '' ('',
                                 sql_join (SQL '', '') coldefs, SQL '');'']
          in Inr create)"

text \<open>
  \<^verbatim>\<open>create_table\<close> with its effects: the statements sent to the database, in order, and the
  exception raised, if any. \<^verbatim>\<open>self.create_indexes\<close> belongs to the base class, which is not
  among the sources: it is the parameter \<open>create_indexes_base\<close>, giving the statements it
  sends and the exception it raises. The database accepts every statement.
\<close>

definition create_table ::
  "(int \<rightharpoonup> string) \<Rightarrow> (string \<Rightarrow> DbTable \<Rightarrow> string list \<times> error option) \<Rightarrow>
   string \<Rightarrow> DbTable \<Rightarrow> bool \<Rightarrow> bool \<Rightarrow> string list \<times> error option" where
  "create_table int_map create_indexes_base name schema ignore_existing create_indexes =
     (case create_table_sql int_map name schema ignore_existing of
        Inl e \<Rightarrow> ([], Some e)
      | Inr create \<Rightarrow>
          if create_indexes
          then (case create_indexes_base name schema of
                  (sent, raised) \<Rightarrow> (as_string create # sent, raised))
          else ([as_string create], None))"

text \<open>\<^verbatim>\<open>str(n)\<close> for an integer, used by the f-string of \<^verbatim>\<open>_create_index\<close>.\<close>

fun str_nat :: "nat \<Rightarrow> string" where
  "str_nat n =
     (if n < 10 then [''0123456789'' ! n]
      else str_nat (n div 10) @ [''0123456789'' ! (n mod 10)])"

definition str_int :: "int \<Rightarrow> string" where
  "str_int i = (if i < 0 then CHR ''-'' # str_nat (nat (- i)) else str_nat (nat i))"

definition index_field_sql :: "DbIndexField \<Rightarrow> composable" where
  "index_field_sql f =
     (case prefix_len f of
        None \<Rightarrow> Identifier (fld_name f)
      | Some n \<Rightarrow> SQL (fld_name f @ ''('' @ str_int n @ '')''))"

text \<open>The statement \<^verbatim>\<open>_create_index\<close> passes to \<^verbatim>\<open>self.execute\<close>.\<close>

definition create_index_sql :: "string \<Rightarrow> string \<Rightarrow> DbIndex \<Rightarrow> composable" where
  "create_index_sql table_name index_name idx =
     (let unique = (if idx_unique idx then ''UNIQUE '' else [])
      in Composed [SQL ''CREATE '', SQL unique, SQL ''INDEX '', Identifier index_name,
                   SQL '' ON '', Identifier table_name, SQL '' ('',
                   sql_join (SQL '', '') (map index_field_sql (idx_fields idx)), SQL '')''])"

section \<open>The upsert clause builder: \<^verbatim>\<open>_upsert_sql\<close>\<close>

text \<open>
  Statement parameters are Python values; \<^verbatim>\<open>', '.join(setvals)\<close> accepts strings only.
  \<^verbatim>\<open>self.primary_fields(table)\<close> belongs to the base class: its result is the parameter
  \<open>fields0\<close>. \<^verbatim>\<open>next(iter(fields))\<close> raises \<^verbatim>\<open>StopIteration\<close> on an empty sequence.
\<close>

datatype sqlval = VStr string | VInt int | VNone

fun str_join :: "string \<Rightarrow> string list \<Rightarrow> string" where
  "str_join sep [] = []"
| "str_join sep [x] = x"
| "str_join sep (x # y # ys) = x @ sep @ str_join sep (y # ys)"

fun strs_of :: "sqlval list \<Rightarrow> string list option" where
  "strs_of [] = Some []"
| "strs_of (VStr s # vs) = (case strs_of vs of None \<Rightarrow> None | Some ss \<Rightarrow> Some (s # ss))"
| "strs_of (_ # vs) = None"

definition upsert_sql ::
  "string list \<Rightarrow> string \<Rightarrow> sqlval list \<Rightarrow> string \<Rightarrow> sqlval list \<Rightarrow>
   error + (string \<times> sqlval list)" where
  "upsert_sql fields0 inssql insvals setsql setvals =
     (if setvals = []
      then (case fields0 of
              [] \<Rightarrow> Inl StopIteration
            | f0 # _ \<Rightarrow> Inr (inssql @ '' ON CONFLICT ('' @ f0 @ '') DO NOTHING'', insvals))
      else (case strs_of setvals of
              None \<Rightarrow> Inl (TypeError ''sequence item: expected str instance'')
            | Some ss \<Rightarrow>
                Inr (inssql @ '' ON CONFLICT ('' @ str_join '', '' ss @ '') DO UPDATE SET ''
                       @ setsql,
                     insvals)))"

section \<open>Introspection\<close>

text \<open>
  Claim C10. For every introspected column, \<^verbatim>\<open>column_model\<close> returns \<^verbatim>\<open>notnull\<close> equal to
  \<^verbatim>\<open>is_nullable == "NO"\<close>, except that a column which is in the primary key and flagged
  auto-increment is returned with \<^verbatim>\<open>notnull\<close> false whatever the catalog says.

  \<^verbatim>\<open>column_model\<close> returns nothing: the module never imports \<^verbatim>\<open>re\<close>, so the call of
  \<^verbatim>\<open>re.match\<close> on line 282 raises \<^verbatim>\<open>NameError\<close> before \<^verbatim>\<open>notnull\<close> is computed, here for
  a non-nullable auto-increment primary-key column.
\<close>

theorem column_model_raises_NameError:
  "column_model ''id'' ''bigint'' ''NO'' (Some ''nextval(1)'') (Some True) True
   = Inl (NameError ''re'')"
  by (simp add: column_model_def global_name_def module_globals_def)

section \<open>Normalization\<close>

lemma simplify_col_eq:
  "simplify_col pf c =
     c\<lparr>col_size := (if col_typ c = INTEGER \<and> \<not> truthy_int (col_size c) then Some 8
                     else col_size c),
       col_notnull := (col_name c \<in> set pf \<or> col_notnull c)\<rparr>"
  by (cases "col_custom c") (simp_all add: simplify_col_def Let_def)

lemma simplify_col_idem: "simplify_col pf (simplify_col pf c) = simplify_col pf c"
  by (simp add: simplify_col_eq truthy_int_def)

lemma dict_set_fresh: "k \<notin> fst ` set m \<Longrightarrow> dict_set m k v = m @ [(k, v)]"
  by (induction m) auto

text \<open>On a dict (distinct keys) every assignment \<^verbatim>\<open>model2[nam] = ...\<close> appends, so the
  tables already stored can be taken out of the loop.\<close>

lemma simplify_tables_acc:
  "distinct (map fst rest) \<Longrightarrow> fst ` set rest \<inter> fst ` set acc = {} \<Longrightarrow>
   simplify_tables pf acc rest = acc @ simplify_tables pf [] rest"
proof (induction rest arbitrary: pf acc)
  case Nil
  then show ?case by simp
next
  case (Cons a rest)
  obtain nam tab where a: "a = (nam, tab)" by (cases a)
  define pf' where "pf' = scan_primary pf (indexes tab)"
  define t where "t = \<lparr>columns = map (simplify_col pf') (columns tab), indexes = indexes tab\<rparr>"
  from Cons.prems a have fresh: "nam \<notin> fst ` set acc" and d: "distinct (map fst rest)"
    and nr: "nam \<notin> fst ` set rest" and dj: "fst ` set rest \<inter> fst ` set acc = {}"
    by auto
  have 1: "simplify_tables pf acc (a # rest) = simplify_tables pf' (acc @ [(nam, t)]) rest"
    using fresh by (simp add: a Let_def dict_set_fresh pf'_def t_def)
  have 2: "simplify_tables pf' (acc @ [(nam, t)]) rest
           = (acc @ [(nam, t)]) @ simplify_tables pf' [] rest"
  proof (rule Cons.IH [OF d])
    show "fst ` set rest \<inter> fst ` set (acc @ [(nam, t)]) = {}"
      using nr dj by auto
  qed
  have 3: "simplify_tables pf' [(nam, t)] rest = [(nam, t)] @ simplify_tables pf' [] rest"
  proof (rule Cons.IH [OF d])
    show "fst ` set rest \<inter> fst ` set [(nam, t)] = {}"
      using nr by auto
  qed
  have 4: "simplify_tables pf [] (a # rest) = simplify_tables pf' [(nam, t)] rest"
    by (simp add: a Let_def pf'_def t_def)
  show ?case by (simp only: 1 2 4 3 append_assoc)
qed

lemma simplify_tables_Cons:
  assumes "distinct (map fst ((nam, tab) # rest))"
  shows "simplify_tables pf [] ((nam, tab) # rest) =
     (nam, \<lparr>columns = map (simplify_col (scan_primary pf (indexes tab))) (columns tab),
            indexes = indexes tab\<rparr>)
     # simplify_tables (scan_primary pf (indexes tab)) [] rest"
proof -
  define pf' where "pf' = scan_primary pf (indexes tab)"
  define t where "t = \<lparr>columns = map (simplify_col pf') (columns tab), indexes = indexes tab\<rparr>"
  have d: "distinct (map fst rest)" and nr: "fst ` set rest \<inter> fst ` set [(nam, t)] = {}"
    using assms by auto
  have "simplify_tables pf [] ((nam, tab) # rest) = simplify_tables pf' [(nam, t)] rest"
    by (simp add: Let_def pf'_def t_def)
  also have "\<dots> = [(nam, t)] @ simplify_tables pf' [] rest"
    using d nr by (rule simplify_tables_acc)
  finally show ?thesis by (simp add: pf'_def t_def)
qed

lemma simplify_tables_keys:
  "distinct (map fst m) \<Longrightarrow> map fst (simplify_tables pf [] m) = map fst m"
proof (induction m arbitrary: pf)
  case Nil
  then show ?case by simp
next
  case (Cons a m)
  obtain nam tab where a: "a = (nam, tab)" by (cases a)
  have d: "distinct (map fst m)" using Cons.prems by simp
  have da: "distinct (map fst ((nam, tab) # m))" using Cons.prems a by simp
  show ?case
    by (simp only: a simplify_tables_Cons [OF da] list.map fst_conv Cons.IH [OF d])
qed

lemma simplify_tables_idem:
  "distinct (map fst m) \<Longrightarrow>
   simplify_tables pf [] (simplify_tables pf [] m) = simplify_tables pf [] m"
proof (induction m arbitrary: pf)
  case Nil
  then show ?case by simp
next
  case (Cons a m)
  obtain nam tab where a: "a = (nam, tab)" by (cases a)
  define pf' where "pf' = scan_primary pf (indexes tab)"
  define t where "t = \<lparr>columns = map (simplify_col pf') (columns tab), indexes = indexes tab\<rparr>"
  have d: "distinct (map fst m)" and nr: "nam \<notin> set (map fst m)"
    using Cons.prems a by auto
  have step: "simplify_tables pf [] (a # m) = (nam, t) # simplify_tables pf' [] m"
    unfolding a pf'_def t_def using Cons.prems [unfolded a] by (rule simplify_tables_Cons)
  have keys: "map fst (simplify_tables pf' [] m) = map fst m"
    using d by (rule simplify_tables_keys)
  have d2: "distinct (map fst ((nam, t) # simplify_tables pf' [] m))"
    using d nr keys by simp
  have t_fix: "\<lparr>columns = map (simplify_col pf') (columns t), indexes = indexes t\<rparr> = t"
    by (simp add: t_def simplify_col_idem)
  have pf_fix: "scan_primary pf (indexes t) = pf'"
    by (simp add: t_def pf'_def)
  have "simplify_tables pf [] ((nam, t) # simplify_tables pf' [] m)
        = (nam, t) # simplify_tables pf' [] (simplify_tables pf' [] m)"
    by (simp only: simplify_tables_Cons [OF d2] pf_fix t_fix)
  also have "\<dots> = (nam, t) # simplify_tables pf' [] m"
    using Cons.IH [OF d] by simp
  finally show ?case unfolding step .
qed

text \<open>
  Claim C3. Normalization is idempotent: for every model \<open>m\<close>,
  \<^verbatim>\<open>simplify_model(simplify_model(m)) == simplify_model(m)\<close>. A model is a dict, so its
  table names are distinct; the second pass meets the same tables in the same order, with
  the same indexes, and every column is already in normal form.
\<close>

theorem simplify_model_idempotent:
  "distinct (map fst m) \<Longrightarrow> simplify_model (simplify_model m) = simplify_model m"
  unfolding simplify_model_def by (rule simplify_tables_idem)

theorem simplify_model_idempotent_witness:
  "distinct (map fst
     [(''users'', \<lparr>columns = [\<lparr>col_name = ''id'', col_typ = INTEGER, col_size = None,
                                col_fixed = False, col_notnull = False, col_default = None,
                                col_autoinc = Some True, col_custom = None\<rparr>],
                  indexes = [\<lparr>idx_fields = [\<lparr>fld_name = ''id'', prefix_len = None\<rparr>],
                              idx_unique = True, idx_primary = True, idx_name = None\<rparr>]\<rparr>),
      (''notes'', \<lparr>columns = [\<lparr>col_name = ''id'', col_typ = TEXT, col_size = Some 20,
                                col_fixed = False, col_notnull = False, col_default = None,
                                col_autoinc = None,
                                col_custom = Some \<lparr>dialect = ''mysql'', info = ''tiny''\<rparr>\<rparr>],
                  indexes = []\<rparr>)])
   \<and> simplify_model (simplify_model
     [(''users'', \<lparr>columns = [\<lparr>col_name = ''id'', col_typ = INTEGER, col_size = None,
                                col_fixed = False, col_notnull = False, col_default = None,
                                col_autoinc = Some True, col_custom = None\<rparr>],
                  indexes = [\<lparr>idx_fields = [\<lparr>fld_name = ''id'', prefix_len = None\<rparr>],
                              idx_unique = True, idx_primary = True, idx_name = None\<rparr>]\<rparr>),
      (''notes'', \<lparr>columns = [\<lparr>col_name = ''id'', col_typ = TEXT, col_size = Some 20,
                                col_fixed = False, col_notnull = False, col_default = None,
                                col_autoinc = None,
                                col_custom = Some \<lparr>dialect = ''mysql'', info = ''tiny''\<rparr>\<rparr>],
                  indexes = []\<rparr>)])
   = simplify_model
     [(''users'', \<lparr>columns = [\<lparr>col_name = ''id'', col_typ = INTEGER, col_size = None,
                                col_fixed = False, col_notnull = False, col_default = None,
                                col_autoinc = Some True, col_custom = None\<rparr>],
                  indexes = [\<lparr>idx_fields = [\<lparr>fld_name = ''id'', prefix_len = None\<rparr>],
                              idx_unique = True, idx_primary = True, idx_name = None\<rparr>]\<rparr>),
      (''notes'', \<lparr>columns = [\<lparr>col_name = ''id'', col_typ = TEXT, col_size = Some 20,
                                col_fixed = False, col_notnull = False, col_default = None,
                                col_autoinc = None,
                                col_custom = Some \<lparr>dialect = ''mysql'', info = ''tiny''\<rparr>\<rparr>],
                  indexes = []\<rparr>)]"
proof -
  have d: "distinct (map fst
     [(''users'', \<lparr>columns = [\<lparr>col_name = ''id'', col_typ = INTEGER, col_size = None,
                                col_fixed = False, col_notnull = False, col_default = None,
                                col_autoinc = Some True, col_custom = None\<rparr>],
                  indexes = [\<lparr>idx_fields = [\<lparr>fld_name = ''id'', prefix_len = None\<rparr>],
                              idx_unique = True, idx_primary = True, idx_name = None\<rparr>]\<rparr>),
      (''notes'', \<lparr>columns = [\<lparr>col_name = ''id'', col_typ = TEXT, col_size = Some 20,
                                col_fixed = False, col_notnull = False, col_default = None,
                                col_autoinc = None,
                                col_custom = Some \<lparr>dialect = ''mysql'', info = ''tiny''\<rparr>\<rparr>],
                  indexes = []\<rparr>)])"
    by simp
  show ?thesis using d simplify_model_idempotent [OF d] by (rule conjI)
qed

text \<open>
  Claim C4. \<^verbatim>\<open>simplify_model\<close> forces \<^verbatim>\<open>notnull\<close> on the columns of a table's primary
  index, per table, with that table's own primary-key fields: a column outside its own
  table's primary key keeps its \<^verbatim>\<open>notnull\<close> flag.

  \<^verbatim>\<open>primary_fields\<close> is set to \<^verbatim>\<open>()\<close> once, before the loop over the tables, so a table
  without a primary index is normalized with the primary-key fields of the table before it.
  Below, table \<^verbatim>\<open>b\<close> has no index and its column \<^verbatim>\<open>id\<close> is nullable; after table \<^verbatim>\<open>a\<close>,
  whose primary key is \<^verbatim>\<open>id\<close>, it comes out \<^verbatim>\<open>notnull\<close>.
\<close>

theorem simplify_model_leaks_primary_fields:
  "simplify_model
     [(''a'', \<lparr>columns = [\<lparr>col_name = ''id'', col_typ = INTEGER, col_size = Some 8,
                            col_fixed = False, col_notnull = True, col_default = None,
                            col_autoinc = Some False, col_custom = None\<rparr>],
              indexes = [\<lparr>idx_fields = [\<lparr>fld_name = ''id'', prefix_len = None\<rparr>],
                          idx_unique = True, idx_primary = True, idx_name = None\<rparr>]\<rparr>),
      (''b'', \<lparr>columns = [\<lparr>col_name = ''id'', col_typ = TEXT, col_size = None,
                            col_fixed = False, col_notnull = False, col_default = None,
                            col_autoinc = Some False, col_custom = None\<rparr>],
              indexes = []\<rparr>)]
   = [(''a'', \<lparr>columns = [\<lparr>col_name = ''id'', col_typ = INTEGER, col_size = Some 8,
                            col_fixed = False, col_notnull = True, col_default = None,
                            col_autoinc = Some False, col_custom = None\<rparr>],
              indexes = [\<lparr>idx_fields = [\<lparr>fld_name = ''id'', prefix_len = None\<rparr>],
                          idx_unique = True, idx_primary = True, idx_name = None\<rparr>]\<rparr>),
      (''b'', \<lparr>columns = [\<lparr>col_name = ''id'', col_typ = TEXT, col_size = None,
                            col_fixed = False, col_notnull = True, col_default = None,
                            col_autoinc = Some False, col_custom = None\<rparr>],
              indexes = []\<rparr>)]"
  by (simp add: simplify_model_def scan_primary_def simplify_col_eq Let_def truthy_int_def)

text \<open>
  Claim C7. \<^verbatim>\<open>simplify_model\<close> keeps a column's custom type info only when it is tagged
  \<^verbatim>\<open>postgres\<close> and drops the info of another dialect.

  The test on the dialect guards \<^verbatim>\<open>d["custom"] = col.custom\<close>, and \<^verbatim>\<open>d\<close> already holds
  that value, so nothing is ever dropped: a column tagged \<^verbatim>\<open>mysql\<close> comes out unchanged.
\<close>

theorem simplify_model_keeps_foreign_custom:
  "simplify_model
     [(''t'', \<lparr>columns = [\<lparr>col_name = ''b'', col_typ = BLOB, col_size = None,
                            col_fixed = False, col_notnull = False, col_default = None,
                            col_autoinc = Some False,
                            col_custom = Some \<lparr>dialect = ''mysql'', info = ''medium''\<rparr>\<rparr>],
              indexes = []\<rparr>)]
   = [(''t'', \<lparr>columns = [\<lparr>col_name = ''b'', col_typ = BLOB, col_size = None,
                            col_fixed = False, col_notnull = False, col_default = None,
                            col_autoinc = Some False,
                            col_custom = Some \<lparr>dialect = ''mysql'', info = ''medium''\<rparr>\<rparr>],
              indexes = []\<rparr>)]"
  by (simp add: simplify_model_def scan_primary_def simplify_col_eq Let_def truthy_int_def)

section \<open>Upsert clauses\<close>

text \<open>
  Claim C5. Without update values \<^verbatim>\<open>_upsert_sql\<close> returns the insert statement with a
  do-nothing clause on the first primary-key field; with update values it returns a
  do-update clause on the conflict columns; in both cases the returned values match the
  placeholders of the statement, insert values first, update values after.

  With update values the conflict target is made of the update values themselves, and the
  values returned are the insert values alone: below the statement has three placeholders
  and two values, and its conflict target is the value \<^verbatim>\<open>bob\<close>.
\<close>

theorem upsert_sql_drops_setvals:
  "upsert_sql [''id''] ''INSERT INTO t (id, name) VALUES (%s, %s)'' [VInt 1, VStr ''bob'']
     ''name=%s'' [VStr ''bob'']
   = Inr (''INSERT INTO t (id, name) VALUES (%s, %s) ON CONFLICT (bob) DO UPDATE SET name=%s'',
          [VInt 1, VStr ''bob''])"
  by (simp add: upsert_sql_def)

section \<open>Generated statements\<close>

text \<open>
  Claim C6. With the if-not-exists flag set, the \<^verbatim>\<open>CREATE TABLE\<close> statement contains
  \<^verbatim>\<open>IF NOT EXISTS\<close>; without it, it does not; in both cases it lists the column
  definitions and then the primary-key clause.

  \<^verbatim>\<open>ignore\<close> is computed from the flag and never put into the statement: with the flag set
  the statement sent is the plain \<^verbatim>\<open>CREATE TABLE\<close>.
\<close>

theorem create_table_ignores_if_not_exists:
  \<open>create_table Map.empty (\<lambda>name schema. ([], None)) ''t''
     \<lparr>columns = [\<lparr>col_name = ''a'', col_typ = TEXT, col_size = None,
                   col_fixed = False, col_notnull = False, col_default = None,
                   col_autoinc = None, col_custom = None\<rparr>],
      indexes = []\<rparr> True True
   = ([''CREATE TABLE "t" ("a" text);''], None)\<close>
  by (simp add: create_table_def create_table_sql_def coldef_of_def resolve_typ_def
      scan_primary_def sql_plus_def sql_join_def quote_ident_def dq_def truthy_int_def
      truthy_flag_def Let_def)

text \<open>
  Claim C8. Every identifier in the statements of \<^verbatim>\<open>create_table\<close> and
  \<^verbatim>\<open>_create_index\<close> goes through the quoting function, an index field with a prefix
  length included.

  An index field without prefix length is an \<^verbatim>\<open>Identifier\<close>; one with a prefix length is
  formatted into a raw \<^verbatim>\<open>SQL\<close> fragment, so its name reaches the statement as it is.
\<close>

theorem create_index_prefix_field_unquoted:
  \<open>as_string (create_index_sql ''t'' ''ix''
       \<lparr>idx_fields = [\<lparr>fld_name = ''a b'', prefix_len = Some 10\<rparr>],
        idx_unique = False, idx_primary = False, idx_name = Some ''ix''\<rparr>)
   = ''CREATE INDEX "ix" ON "t" (a b(10))''\<close>
  by (simp add: create_index_sql_def index_field_sql_def sql_join_def quote_ident_def dq_def
      str_int_def Let_def)

section \<open>Type round trip\<close>

text \<open>
  Claim C1. Round-trip type stability: reverse-mapping, through \<^verbatim>\<open>column_model\<close>, the
  native type \<^verbatim>\<open>create_table\<close> resolves for a column gives back the column's abstract
  type, size and custom info.

  The way back does not exist: for a plain \<^verbatim>\<open>INTEGER\<close> column \<^verbatim>\<open>create_table\<close> resolves
  the native type \<^verbatim>\<open>bigint\<close>, and \<^verbatim>\<open>column_model\<close> on \<^verbatim>\<open>bigint\<close> raises \<^verbatim>\<open>NameError\<close>
  at \<^verbatim>\<open>re.match\<close>, as it does on every native type.
\<close>

theorem type_roundtrip_raises_NameError:
  "resolve_typ Map.empty
     \<lparr>col_name = ''n'', col_typ = INTEGER, col_size = None, col_fixed = False,
      col_notnull = False, col_default = None, col_autoinc = None, col_custom = None\<rparr>
     = Inr (Comp (SQL ''bigint''))
   \<and> native_name (Comp (SQL ''bigint'')) = ''bigint''
   \<and> column_model ''n'' ''bigint'' ''YES'' None None False = Inl (NameError ''re'')"
  by (simp add: resolve_typ_def native_name_def truthy_int_def column_model_def
      global_name_def module_globals_def)

section \<open>The auto-increment check\<close>













end
